theory Spec2Isabelle
  imports Main
begin

section \<open>Data model\<close>

text \<open>
  The proxy (\<^verbatim>\<open>main.go\<close>) talks to the network through Go's \<^verbatim>\<open>net\<close> package and keeps
  two pieces of shared state: the global \<^verbatim>\<open>masterAddr\<close> and the channel variable
  \<^verbatim>\<open>masterStopChan\<close> of \<^verbatim>\<open>main\<close>, which \<^verbatim>\<open>update_master\<close> reaches through a pointer.
  The functions of \<^verbatim>\<open>main.go\<close> are embedded as state-passing functions; the network is a
  parameter (a record of operations on an abstract world \<open>'w\<close>), and everything a function
  does to the outside is appended to a trace.
\<close>

text \<open>A Go \<^verbatim>\<open>error\<close> value, with the text its \<^verbatim>\<open>Error()\<close> method gives.\<close>

datatype error = Err string

fun Error :: "error \<Rightarrow> string" where
  "Error (Err m) = m"

text \<open>
  \<^verbatim>\<open>net.TCPAddr\<close>. The field \<open>IP\<close> holds the textual form of the IP (what \<^verbatim>\<open>IP.String()\<close>
  prints, empty for an empty IP). A \<^verbatim>\<open>*net.TCPAddr\<close> is a \<open>TCPAddr option\<close>, \<open>None\<close> for nil.
\<close>

record TCPAddr =
  IP :: string
  Port :: int
  Zone :: string

text \<open>A connection (\<^verbatim>\<open>net.Conn\<close>): a descriptor and the text of its remote address.\<close>

record Conn =
  fd :: nat
  RemoteAddr :: string

text \<open>A channel value is a reference; \<^verbatim>\<open>make\<close> hands out the next unused one.\<close>

type_synonym chan = nat

datatype level = TraceLevel | InfoLevel | ErrorLevel | FatalLevel

text \<open>The three places of \<^verbatim>\<open>main.go\<close> that call \<^verbatim>\<open>net.DialTimeout\<close>.\<close>

datatype dial_site =
    SentinelDial  \<comment> \<open>\<^verbatim>\<open>getMasterAddrFromSentinel\<close>, line 229\<close>
  | MasterProbe   \<comment> \<open>\<^verbatim>\<open>getMasterAddr\<close>, line 260\<close>
  | ProxyDial     \<comment> \<open>\<^verbatim>\<open>proxy\<close>, line 168\<close>

datatype goroutine =
    Go_update_master
  | Go_proxy Conn "TCPAddr option" chan
  | Go_pipe Conn Conn chan

text \<open>
  What the program does to the outside, in order. \<open>Log\<close> records a call of the logger at
  its level with the format string and the arguments of the call (whether the line is
  printed depends on the configured level). Durations are in milliseconds.
\<close>

datatype event =
    Log level string "string list"
  | Sleep nat
  | Lookup string "string list option"
  | Resolve string "TCPAddr option"
  | Dial dial_site string string nat "Conn option"
  | Write Conn string
  | Read Conn nat
  | Close Conn
  | MakeChan chan
  | CloseChan chan
  | Go goroutine
  | Listen "TCPAddr option" bool
  | Accept "Conn option"
  | Exit int

text \<open>
  The network and the process environment, as seen through the library calls of
  \<^verbatim>\<open>main.go\<close>. Each operation reads the world and returns the next one, so two calls
  with the same arguments may answer differently. \<open>Connect\<close> also tells how long the
  attempt takes.
\<close>

record 'w net =
  SplitHostPort :: "string \<Rightarrow> error + string \<times> string"
  LookupIP :: "'w \<Rightarrow> string \<Rightarrow> (error + string list) \<times> 'w"
  ResolveTCPAddr :: "'w \<Rightarrow> string \<Rightarrow> (error + TCPAddr) \<times> 'w"
  Connect :: "'w \<Rightarrow> string \<Rightarrow> string \<Rightarrow> ((error + Conn) \<times> nat) \<times> 'w"
  ConnWrite :: "'w \<Rightarrow> Conn \<Rightarrow> string \<Rightarrow> 'w"
  ConnRead :: "'w \<Rightarrow> Conn \<Rightarrow> nat \<Rightarrow> (string \<times> error option) \<times> 'w"
  ConnClose :: "'w \<Rightarrow> Conn \<Rightarrow> 'w"
  ListenTCP :: "'w \<Rightarrow> TCPAddr option \<Rightarrow> error option \<times> 'w"
  AcceptTCP :: "'w \<Rightarrow> (error + Conn) \<times> 'w"

text \<open>The command-line flags (lines 23--26).\<close>

record config =
  localAddrAsStr :: string
  sentinelAddrAsStr :: string
  masterNameAsStr :: string
  logLevelAsStr :: string

text \<open>
  The state of the process: the world, a clock in milliseconds that only blocking calls
  advance, the trace, the global \<^verbatim>\<open>masterAddr\<close>, the variable \<^verbatim>\<open>masterStopChan\<close> of
  \<^verbatim>\<open>main\<close>, the set of closed channels and the next unused channel.
\<close>

record 'w state =
  world :: 'w
  now :: nat
  trace :: "event list"
  masterAddr :: "TCPAddr option"
  masterStopChan :: chan
  closed :: "chan set"
  next_chan :: chan

section \<open>Constants and library functions\<close>

definition ProxyDialTimeout :: nat where
  "ProxyDialTimeout = 50"

definition DialTimeout :: nat where
  "DialTimeout = 100"

text \<open>\<^verbatim>\<open>strconv.Itoa\<close>: decimal digits, with a sign for a negative number.\<close>

fun uitoa :: "nat \<Rightarrow> string" where
  "uitoa n = (if n < 10 then [''0123456789'' ! n]
              else uitoa (n div 10) @ [''0123456789'' ! (n mod 10)])"

declare uitoa.simps [simp del]

definition Itoa :: "int \<Rightarrow> string" where
  "Itoa i = (if i < 0 then CHR ''-'' # uitoa (nat (- i)) else uitoa (nat i))"

text \<open>\<^verbatim>\<open>net.JoinHostPort\<close>: a host with a colon in it is put in brackets.\<close>

definition JoinHostPort :: "string \<Rightarrow> string \<Rightarrow> string" where
  "JoinHostPort host port =
     (if CHR '':'' \<in> set host then ''['' @ host @ '']:'' @ port else host @ '':'' @ port)"

text \<open>
  \<^verbatim>\<open>(*net.TCPAddr).String()\<close>: the method accepts a nil receiver and prints \<^verbatim>\<open><nil>\<close> for it.
\<close>

fun TCPAddr_String :: "TCPAddr option \<Rightarrow> string" where
  "TCPAddr_String None = ''<nil>''"
| "TCPAddr_String (Some a) =
     (if Zone a \<noteq> [] then JoinHostPort (IP a @ ''%'' @ Zone a) (Itoa (Port a))
      else JoinHostPort (IP a) (Itoa (Port a)))"

text \<open>
  \<^verbatim>\<open>strings.Split(s, sep)\<close> for a non-empty separator: cut at each occurrence of \<open>sep\<close>,
  left to right, occurrences not overlapping. \<open>acc\<close> is the part being read.
\<close>

fun Split_from :: "string \<Rightarrow> string \<Rightarrow> string \<Rightarrow> string list" where
  "Split_from sep acc [] = [acc]"
| "Split_from sep acc (c # cs) =
     (if sep \<noteq> [] \<and> take (length sep) (c # cs) = sep
      then acc # Split_from sep [] (drop (length sep - 1) cs)
      else Split_from sep (acc @ [c]) cs)"

definition Split :: "string \<Rightarrow> string \<Rightarrow> string list" where
  "Split s sep = Split_from sep [] s"

definition CRLF :: string where
  "CRLF = [CHR 0x0D, CHR 0x0A]"

section \<open>Effects\<close>

definition emit :: "event \<Rightarrow> 'w state \<Rightarrow> 'w state" where
  "emit e st = st\<lparr>trace := trace st @ [e]\<rparr>"

definition logf :: "level \<Rightarrow> string \<Rightarrow> string list \<Rightarrow> 'w state \<Rightarrow> 'w state" where
  "logf l fmt args st = emit (Log l fmt args) st"

definition time_Sleep :: "nat \<Rightarrow> 'w state \<Rightarrow> 'w state" where
  "time_Sleep d st = emit (Sleep d) (st\<lparr>now := now st + d\<rparr>)"

text \<open>The events a run added: the trace of \<open>st'\<close> beyond that of \<open>st\<close>.\<close>

definition since :: "'w state \<Rightarrow> 'w state \<Rightarrow> event list" where
  "since st st' = drop (length (trace st)) (trace st')"

text \<open>
  \<^verbatim>\<open>net.DialTimeout(network, address, timeout)\<close>. The library splits the address into host
  and port before it connects, and an address without a colon fails there (\<^verbatim>\<open>missing port
  in address\<close>) without touching the network. Otherwise the network answers; an attempt
  that would take longer than the timeout fails when the timeout expires.
\<close>

definition net_DialTimeout ::
  "'w net \<Rightarrow> dial_site \<Rightarrow> string \<Rightarrow> string \<Rightarrow> nat \<Rightarrow> 'w state \<Rightarrow> (error + Conn) \<times> 'w state" where
  "net_DialTimeout net site network address timeout st =
     (if CHR '':'' \<notin> set address
      then (Inl (Err (''dial '' @ network @ '': address '' @ address @ '': missing port in address'')),
            emit (Dial site network address timeout None) st)
      else (case Connect net (world st) network address of
              ((r, d), w) \<Rightarrow>
                if timeout < d
                then (Inl (Err (''dial '' @ network @ '' '' @ address @ '': i/o timeout'')),
                      emit (Dial site network address timeout None)
                        (st\<lparr>world := w, now := now st + timeout\<rparr>))
                else (r, emit (Dial site network address timeout
                                 (case r of Inl e \<Rightarrow> None | Inr c \<Rightarrow> Some c))
                           (st\<lparr>world := w, now := now st + d\<rparr>))))"

definition net_ResolveTCPAddr ::
  "'w net \<Rightarrow> string \<Rightarrow> 'w state \<Rightarrow> (TCPAddr option \<times> error option) \<times> 'w state" where
  "net_ResolveTCPAddr net address st =
     (case ResolveTCPAddr net (world st) address of
        (Inl e, w) \<Rightarrow> ((None, Some e), emit (Resolve address None) (st\<lparr>world := w\<rparr>))
      | (Inr a, w) \<Rightarrow> ((Some a, None), emit (Resolve address (Some a)) (st\<lparr>world := w\<rparr>)))"

definition net_LookupIP ::
  "'w net \<Rightarrow> string \<Rightarrow> 'w state \<Rightarrow> (error + string list) \<times> 'w state" where
  "net_LookupIP net host st =
     (case LookupIP net (world st) host of
        (Inl e, w) \<Rightarrow> (Inl e, emit (Lookup host None) (st\<lparr>world := w\<rparr>))
      | (Inr ips, w) \<Rightarrow> (Inr ips, emit (Lookup host (Some ips)) (st\<lparr>world := w\<rparr>)))"

definition conn_Write :: "'w net \<Rightarrow> Conn \<Rightarrow> string \<Rightarrow> 'w state \<Rightarrow> 'w state" where
  "conn_Write net c bs st = emit (Write c bs) (st\<lparr>world := ConnWrite net (world st) c bs\<rparr>)"

text \<open>
  \<^verbatim>\<open>conn.Read(b)\<close> into a fresh buffer of \<open>n\<close> zero bytes: the buffer afterwards (the bytes
  read, then the zeros that remain) and the error.
\<close>

definition conn_Read ::
  "'w net \<Rightarrow> Conn \<Rightarrow> nat \<Rightarrow> 'w state \<Rightarrow> (string \<times> error option) \<times> 'w state" where
  "conn_Read net c n st =
     (case ConnRead net (world st) c n of
        ((bs, err), w) \<Rightarrow>
          ((take n bs @ replicate (n - length bs) (CHR 0x00), err),
           emit (Read c n) (st\<lparr>world := w\<rparr>)))"

definition conn_Close :: "'w net \<Rightarrow> Conn \<Rightarrow> 'w state \<Rightarrow> 'w state" where
  "conn_Close net c st = emit (Close c) (st\<lparr>world := ConnClose net (world st) c\<rparr>)"

definition make_chan :: "'w state \<Rightarrow> chan \<times> 'w state" where
  "make_chan st = (next_chan st, emit (MakeChan (next_chan st)) (st\<lparr>next_chan := Suc (next_chan st)\<rparr>))"

text \<open>\<^verbatim>\<open>close(c)\<close> panics on a channel that is closed already.\<close>

datatype panic = Panic string

definition close_chan :: "chan \<Rightarrow> 'w state \<Rightarrow> panic + 'w state" where
  "close_chan c st =
     (if c \<in> closed st then Inl (Panic ''close of closed channel'')
      else Inr (emit (CloseChan c) (st\<lparr>closed := insert c (closed st)\<rparr>)))"

section \<open>Discovery client\<close>

text \<open>
  \<^verbatim>\<open>getSentinels\<close>, lines 192--214. The loop of lines 203--211 declares its own \<^verbatim>\<open>err\<close>
  (\<^verbatim>\<open>netAddr, err := ...\<close>), so the \<^verbatim>\<open>err\<close> returned at line 213 is the one of the
  lookup, nil there. On a failed resolution \<^verbatim>\<open>netAddr\<close> is nil and is appended all the same.
\<close>

fun getSentinels_loop ::
  "'w net \<Rightarrow> string \<Rightarrow> string list \<Rightarrow> TCPAddr option list \<Rightarrow> 'w state
   \<Rightarrow> TCPAddr option list \<times> 'w state" where
  "getSentinels_loop net sentinelPort [] sentinelsWithPort st = (sentinelsWithPort, st)"
| "getSentinels_loop net sentinelPort (sentinelIP # sentinels) sentinelsWithPort st =
     (let addr = JoinHostPort sentinelIP sentinelPort;
          st1 = logf TraceLevel ''Sentinel address: %s'' [addr] st
      in case net_ResolveTCPAddr net addr st1 of
           ((netAddr, err), st2) \<Rightarrow>
             getSentinels_loop net sentinelPort sentinels (sentinelsWithPort @ [netAddr])
               (if err \<noteq> None
                then logf ErrorLevel ''Can not resolve sentinel address: %s'' [addr] st2
                else st2))"

definition getSentinels ::
  "'w net \<Rightarrow> string \<Rightarrow> 'w state \<Rightarrow> (TCPAddr option list \<times> error option) \<times> 'w state" where
  "getSentinels net sentinelAddress st =
     (case SplitHostPort net sentinelAddress of
        Inl err \<Rightarrow> (([], Some (Err (''Can't find Sentinel: '' @ Error err))), st)
      | Inr (sentinelHost, sentinelPort) \<Rightarrow>
          (case net_LookupIP net sentinelHost st of
             (Inl err, st1) \<Rightarrow> (([], Some (Err (''Can't lookup Sentinel: '' @ Error err))), st1)
           | (Inr sentinels, st1) \<Rightarrow>
               (case getSentinels_loop net sentinelPort sentinels [] st1 of
                  (sentinelsWithPort, st2) \<Rightarrow> ((sentinelsWithPort, None), st2))))"

text \<open>\<^verbatim>\<open>getMasterAddrFromSentinelResponse\<close>, lines 216--226.\<close>

definition getMasterAddrFromSentinelResponse ::
  "'w net \<Rightarrow> string \<Rightarrow> 'w state \<Rightarrow> (TCPAddr option \<times> error option) \<times> 'w state" where
  "getMasterAddrFromSentinelResponse net response st =
     (let responseParts = Split response CRLF
      in if length responseParts < 5
         then ((None, Some (Err ''Couldn't get update_master address from sentinel.'')),
               logf ErrorLevel (''Wrong sentinel response: '%s'' @ [CHR 0x27]) [response] st)
         else net_ResolveTCPAddr net (responseParts ! 2 @ '':'' @ responseParts ! 4) st)"

text \<open>
  \<^verbatim>\<open>getMasterAddrFromSentinel\<close>, lines 228--244. The whole buffer of 256 bytes goes to the
  parser, whatever the number of bytes read. The deferred \<^verbatim>\<open>conn.Close()\<close> runs at each
  return after line 233.
\<close>

definition getMasterAddrFromSentinel ::
  "'w net \<Rightarrow> config \<Rightarrow> TCPAddr option \<Rightarrow> 'w state
   \<Rightarrow> (TCPAddr option \<times> error option) \<times> 'w state" where
  "getMasterAddrFromSentinel net cfg sentinelAddress st =
     (case net_DialTimeout net SentinelDial ''tcp'' (TCPAddr_String sentinelAddress) DialTimeout st of
        (Inl err, st1) \<Rightarrow>
          ((None, Some (Err (''Sentinel no not respond: '' @ sentinelAddrAsStr cfg))), st1)
      | (Inr conn, st1) \<Rightarrow>
          (let st2 = conn_Write net conn
                       (''sentinel get-master-addr-by-name '' @ masterNameAsStr cfg @ ''\<newline>'') st1
           in case conn_Read net conn 256 st2 of
                ((b, err), st3) \<Rightarrow>
                  if err \<noteq> None
                  then ((None, Some (Err (''Cannot read from sentinel: '' @ sentinelAddrAsStr cfg))),
                        conn_Close net conn
                          (logf ErrorLevel ''Cannot read from sentinel: %s'' [sentinelAddrAsStr cfg] st3))
                  else (case getMasterAddrFromSentinelResponse net b st3 of
                          (r, st4) \<Rightarrow> (r, conn_Close net conn st4))))"

text \<open>
  \<^verbatim>\<open>getMasterAddr\<close>, lines 246--271. After a failed query (lines 255--257) the loop goes
  on to the probe with the nil \<^verbatim>\<open>netMasterAddr\<close>. At line 266 \<^verbatim>\<open>err\<close> is the nil error of
  the probe, and the deferred \<^verbatim>\<open>conn2.Close()\<close> runs at that return.
\<close>

fun getMasterAddr_loop ::
  "'w net \<Rightarrow> config \<Rightarrow> TCPAddr option list \<Rightarrow> 'w state
   \<Rightarrow> (TCPAddr option \<times> error option) \<times> 'w state" where
  "getMasterAddr_loop net cfg [] st = ((None, None), st)"
| "getMasterAddr_loop net cfg (sentinelAddress # sentinels) st =
     (case getMasterAddrFromSentinel net cfg sentinelAddress st of
        ((netMasterAddr, err), st1) \<Rightarrow>
          (let st2 = (case err of
                        Some e \<Rightarrow> logf ErrorLevel ''Can not get master address from sentinel. %s'' [Error e] st1
                      | None \<Rightarrow> st1)
           in case net_DialTimeout net MasterProbe ''tcp'' (TCPAddr_String netMasterAddr) DialTimeout st2 of
                (Inl err2, st3) \<Rightarrow>
                  getMasterAddr_loop net cfg sentinels
                    (logf ErrorLevel ''Can not dial master: %s'' [TCPAddr_String netMasterAddr] st3)
              | (Inr conn2, st3) \<Rightarrow> ((netMasterAddr, None), conn_Close net conn2 st3)))"

definition getMasterAddr ::
  "'w net \<Rightarrow> config \<Rightarrow> string \<Rightarrow> string \<Rightarrow> 'w state
   \<Rightarrow> (TCPAddr option \<times> error option) \<times> 'w state" where
  "getMasterAddr net cfg sentinelAddress masterName st =
     (case getSentinels net sentinelAddress st of
        ((sentinels, Some err), st1) \<Rightarrow>
          ((None, Some (Err (''Can't lookup Sentinel: '' @ Error err))), st1)
      | ((sentinels, None), st1) \<Rightarrow> getMasterAddr_loop net cfg sentinels st1)"

section \<open>Primary tracker\<close>

text \<open>
  Lines 131--136 of \<^verbatim>\<open>update_master\<close>: the comparison of the two address strings and,
  when they differ, the log line, the assignment, the close and the fresh channel.
\<close>

definition update_master_compare :: "TCPAddr option \<Rightarrow> 'w state \<Rightarrow> panic + 'w state" where
  "update_master_compare possibleMaster st =
     (if TCPAddr_String possibleMaster \<noteq> TCPAddr_String (masterAddr st)
      then (let st1 = logf ErrorLevel ''[MASTER] Master Address changed from %s to %s.''
                        [TCPAddr_String (masterAddr st), TCPAddr_String possibleMaster] st;
                st2 = st1\<lparr>masterAddr := possibleMaster\<rparr>
            in case close_chan (masterStopChan st2) st2 of
                 Inl p \<Rightarrow> Inl p
               | Inr st3 \<Rightarrow>
                   (case make_chan st3 of (c, st4) \<Rightarrow> Inr (st4\<lparr>masterStopChan := c\<rparr>)))
      else Inr st)"

text \<open>One pass through the body of the loop of \<^verbatim>\<open>update_master\<close>, lines 124--145.\<close>

definition update_master_iter :: "'w net \<Rightarrow> config \<Rightarrow> 'w state \<Rightarrow> panic + 'w state" where
  "update_master_iter net cfg st =
     (case getMasterAddr net cfg (sentinelAddrAsStr cfg) (masterNameAsStr cfg) st of
        ((possibleMaster, Some err), st1) \<Rightarrow>
          Inr (time_Sleep 1000
                 (logf ErrorLevel ''[MASTER] Error polling for new master: %s.'' [Error err] st1))
      | ((possibleMaster, None), st1) \<Rightarrow>
          (case update_master_compare possibleMaster st1 of
             Inl p \<Rightarrow> Inl p
           | Inr st2 \<Rightarrow>
               if masterAddr st2 = None then Inr (time_Sleep 1000 st2)
               else Inr (time_Sleep 250 st2)))"

text \<open>The loop never returns; \<open>update_master n\<close> is its first \<open>n\<close> passes.\<close>

fun update_master :: "nat \<Rightarrow> 'w net \<Rightarrow> config \<Rightarrow> 'w state \<Rightarrow> panic + 'w state" where
  "update_master 0 net cfg st = Inr st"
| "update_master (Suc n) net cfg st =
     (case update_master_iter net cfg st of
        Inl p \<Rightarrow> Inl p
      | Inr st1 \<Rightarrow> update_master n net cfg st1)"

section \<open>Connection proxy\<close>

text \<open>A session that has reached the \<^verbatim>\<open>select\<close> of line 183.\<close>

record session =
  local_conn :: Conn
  remote_conn :: Conn
  stop_chan :: chan
  localChan :: chan
  remoteChan :: chan

text \<open>
  \<^verbatim>\<open>proxy\<close>, lines 163--181: \<open>None\<close> is the return of line 172, a session is the arrival at
  the \<^verbatim>\<open>select\<close>, the two relays started.
\<close>

definition proxy ::
  "'w net \<Rightarrow> Conn \<Rightarrow> TCPAddr option \<Rightarrow> chan \<Rightarrow> 'w state \<Rightarrow> session option \<times> 'w state" where
  "proxy net local remoteAddr stopChan st =
     (case net_DialTimeout net ProxyDial ''tcp4'' (TCPAddr_String remoteAddr) ProxyDialTimeout st of
        (Inl err, st1) \<Rightarrow>
          (None,
           conn_Close net local
             (logf InfoLevel ''[PROXY %s => %s] Can't establish connection: %s\<newline>''
                [RemoteAddr local, TCPAddr_String remoteAddr, Error err] st1))
      | (Inr remote, st1) \<Rightarrow>
          (case make_chan st1 of
             (lc, st2) \<Rightarrow>
               (case make_chan st2 of
                  (rc, st3) \<Rightarrow>
                    (Some \<lparr>local_conn = local, remote_conn = remote, stop_chan = stopChan,
                           localChan = lc, remoteChan = rc\<rparr>,
                     emit (Go (Go_pipe remote local lc))
                       (emit (Go (Go_pipe local remote rc)) st3)))))"

text \<open>
  The \<^verbatim>\<open>select\<close> of lines 183--187: nothing is ever sent on the three channels, so a case
  is ready exactly when its channel is closed.
\<close>

definition select_ready :: "session \<Rightarrow> 'w state \<Rightarrow> bool" where
  "select_ready s st \<longleftrightarrow>
     stop_chan s \<in> closed st \<or> localChan s \<in> closed st \<or> remoteChan s \<in> closed st"

text \<open>After the \<^verbatim>\<open>select\<close>: line 189 and the deferred closes, last deferred first.\<close>

definition proxy_end :: "'w net \<Rightarrow> TCPAddr option \<Rightarrow> session \<Rightarrow> 'w state \<Rightarrow> 'w state" where
  "proxy_end net remoteAddr s st =
     conn_Close net (local_conn s)
       (conn_Close net (remote_conn s)
          (logf InfoLevel ''[PROXY %s => %s] Closing connection\<newline>''
             [RemoteAddr (local_conn s), TCPAddr_String remoteAddr] st))"

section \<open>Startup and accept loop\<close>

text \<open>\<^verbatim>\<open>log.Fatal\<close> writes the line and ends the process with status 1.\<close>

definition log_Fatal :: "string \<Rightarrow> string list \<Rightarrow> 'w state \<Rightarrow> 'w state" where
  "log_Fatal fmt args st = emit (Exit 1) (logf FatalLevel fmt args st)"

text \<open>
  \<^verbatim>\<open>checkArgs\<close>, lines 45--54: \<open>True\<close> when the process has exited. An exit at line 47
  ends the function there. The line of line 52 is recorded with the format and the
  arguments of its \<^verbatim>\<open>Sprintf\<close>.
\<close>

definition checkArgs :: "'w net \<Rightarrow> config \<Rightarrow> 'w state \<Rightarrow> bool \<times> 'w state" where
  "checkArgs net cfg st =
     (if masterNameAsStr cfg = []
      then (True, log_Fatal ''Name of the master redis node is required argument.'' [] st)
      else (case net_ResolveTCPAddr net (localAddrAsStr cfg) st of
              ((a, Some err), st1) \<Rightarrow>
                (True, log_Fatal ''Failed to resolve local address '%s': %s''
                         [localAddrAsStr cfg, Error err] st1)
            | ((a, None), st1) \<Rightarrow> (False, st1)))"

text \<open>\<^verbatim>\<open>getLocalListener\<close>, lines 56--64: \<open>True\<close> when the process has exited.\<close>

definition getLocalListener :: "'w net \<Rightarrow> config \<Rightarrow> 'w state \<Rightarrow> bool \<times> 'w state" where
  "getLocalListener net cfg st =
     (case net_ResolveTCPAddr net (localAddrAsStr cfg) st of
        ((laddr, e), st1) \<Rightarrow>
          (case ListenTCP net (world st1) laddr of
             (Some err, w) \<Rightarrow>
               (True, log_Fatal (Error err) [] (emit (Listen laddr False) (st1\<lparr>world := w\<rparr>)))
           | (None, w) \<Rightarrow> (False, emit (Listen laddr True) (st1\<lparr>world := w\<rparr>))))"

text \<open>
  \<^verbatim>\<open>main\<close> from the call of \<^verbatim>\<open>checkArgs\<close> to the arrival at the accept loop, lines
  103--110: \<open>True\<close> when the process has exited, \<open>False\<close> when the loop of line 111 is
  reached. (Lines 98--102 set up crash reporting, flags and the logger.)
\<close>

definition main_startup :: "'w net \<Rightarrow> config \<Rightarrow> 'w state \<Rightarrow> bool \<times> 'w state" where
  "main_startup net cfg st =
     (case checkArgs net cfg st of
        (True, st1) \<Rightarrow> (True, st1)
      | (False, st1) \<Rightarrow>
          (case make_chan st1 of
             (c, st2) \<Rightarrow>
               getLocalListener net cfg
                 (emit (Go Go_update_master) (st2\<lparr>masterStopChan := c\<rparr>))))"

text \<open>
  One pass through the accept loop, lines 112--118: the goroutine started, if any. The
  arguments of \<^verbatim>\<open>proxy\<close> are the values of \<^verbatim>\<open>masterAddr\<close> and \<^verbatim>\<open>masterStopChan\<close> at that
  moment.
\<close>

definition main_accept :: "'w net \<Rightarrow> 'w state \<Rightarrow> goroutine option \<times> 'w state" where
  "main_accept net st =
     (case AcceptTCP net (world st) of
        (Inl err, w) \<Rightarrow>
          (None, logf ErrorLevel (Error err) [] (emit (Accept None) (st\<lparr>world := w\<rparr>)))
      | (Inr local, w) \<Rightarrow>
          (Some (Go_proxy local (masterAddr st) (masterStopChan st)),
           emit (Go (Go_proxy local (masterAddr st) (masterStopChan st)))
             (emit (Accept (Some local)) (st\<lparr>world := w\<rparr>))))"

text \<open>The state at process start: \<^verbatim>\<open>masterAddr\<close> is nil, no channel exists.\<close>

definition init_state :: "'w \<Rightarrow> 'w state" where
  "init_state w = \<lparr>world = w, now = 0, trace = [], masterAddr = None, masterStopChan = 0,
                   closed = {}, next_chan = 0\<rparr>"

section \<open>Reading traces\<close>

text \<open>A probe of line 260 that found someone listening.\<close>

fun probe_ok :: "event \<Rightarrow> bool" where
  "probe_ok (Dial MasterProbe network address timeout (Some c)) = True"
| "probe_ok e = False"

text \<open>The log line of line 132.\<close>

fun changed_log :: "event \<Rightarrow> bool" where
  "changed_log (Log l fmt args) = (fmt = ''[MASTER] Master Address changed from %s to %s.'')"
| "changed_log e = False"

text \<open>The log line of line 208.\<close>

fun resolve_error_log :: "event \<Rightarrow> bool" where
  "resolve_error_log (Log l fmt args) = (fmt = ''Can not resolve sentinel address: %s'')"
| "resolve_error_log e = False"

text \<open>The resolutions of a trace: each address with the result, \<open>None\<close> for a failure.\<close>

fun resolved :: "event list \<Rightarrow> (string \<times> TCPAddr option) list" where
  "resolved [] = []"
| "resolved (Resolve address r # es) = (address, r) # resolved es"
| "resolved (e # es) = resolved es"

text \<open>The channels a trace closes, in order.\<close>

fun closes :: "event list \<Rightarrow> chan list" where
  "closes [] = []"
| "closes (CloseChan c # es) = c # closes es"
| "closes (e # es) = closes es"

text \<open>
  \<open>st'\<close> comes from \<open>st\<close> by input and output only: the events \<open>evs\<close> are added to the
  trace, and the shared variables and the channels are as they were.
\<close>

definition io_run :: "'w state \<Rightarrow> event list \<Rightarrow> 'w state \<Rightarrow> bool" where
  "io_run st evs st' \<longleftrightarrow>
     trace st' = trace st @ evs \<and> masterAddr st' = masterAddr st \<and>
     masterStopChan st' = masterStopChan st \<and> closed st' = closed st \<and>
     next_chan st' = next_chan st"

text \<open>The close of a channel.\<close>

fun closing :: "event \<Rightarrow> bool" where
  "closing (CloseChan c) = True"
| "closing e = False"

text \<open>
  An event of discovery that decides nothing: neither a successful probe, nor the log line
  of a change, nor the close of a channel.
\<close>

definition quiet :: "event \<Rightarrow> bool" where
  "quiet e \<longleftrightarrow> \<not> probe_ok e \<and> \<not> changed_log e \<and> \<not> closing e"

definition runs :: "(event \<Rightarrow> bool) \<Rightarrow> 'w state \<Rightarrow> 'w state \<Rightarrow> bool" where
  "runs P st st' \<longleftrightarrow> (\<exists>evs. io_run st evs st' \<and> list_all P evs)"

text \<open>
  The channels of the tracker are in order: the current channel exists and is open, and
  every closed channel exists.
\<close>

definition chan_inv :: "'w state \<Rightarrow> bool" where
  "chan_inv st \<longleftrightarrow>
     masterStopChan st < next_chan st \<and> masterStopChan st \<notin> closed st \<and>
     (\<forall>c \<in> closed st. c < next_chan st)"

section \<open>An example network\<close>

text \<open>
  The sentinel name resolves to two addresses; the second has no TCP address. The sentinel
  at the first answers when \<open>up\<close> holds of the number of lookups so far, and names
  \<^verbatim>\<open>10.0.0.1:6380\<close>, where someone listens. The listen address can be bound when
  \<open>bindable\<close> holds.
\<close>

definition example_hosts :: "(string \<times> TCPAddr) list" where
  "example_hosts =
     [(''10.0.0.5:26379'', \<lparr>IP = ''10.0.0.5'', Port = 26379, Zone = []\<rparr>),
      (''10.0.0.1:6380'', \<lparr>IP = ''10.0.0.1'', Port = 6380, Zone = []\<rparr>),
      ('':9999'', \<lparr>IP = [], Port = 9999, Zone = []\<rparr>)]"

definition example_reply :: string where
  "example_reply =
     ''*2'' @ CRLF @ ''$8'' @ CRLF @ ''10.0.0.1'' @ CRLF @ ''$4'' @ CRLF @ ''6380'' @ CRLF"

text \<open>A reply of five lines that names a host the example network cannot resolve.\<close>

definition stale_reply :: string where
  "stale_reply =
     ''*2'' @ CRLF @ ''$9'' @ CRLF @ ''redis-old'' @ CRLF @ ''$4'' @ CRLF @ ''6379'' @ CRLF"

definition example_net :: "(nat \<Rightarrow> bool) \<Rightarrow> bool \<Rightarrow> nat net" where
  "example_net up bindable =
     \<lparr>SplitHostPort = (\<lambda>s. if s = ''sentinel:26379'' then Inr (''sentinel'', ''26379'')
                            else Inl (Err ''missing port in address'')),
      LookupIP = (\<lambda>w h. (Inr [''10.0.0.5'', ''10.0.0.6''], Suc w)),
      ResolveTCPAddr = (\<lambda>w a. (case map_of example_hosts a of
                                  Some t \<Rightarrow> Inr t
                                | None \<Rightarrow> Inl (Err ''no such host''), w)),
      Connect = (\<lambda>w nw a. ((if a = ''10.0.0.1:6380'' \<or> (a = ''10.0.0.5:26379'' \<and> up w)
                             then Inr \<lparr>fd = 7, RemoteAddr = a\<rparr>
                             else Inl (Err ''connection refused''), 1), w)),
      ConnWrite = (\<lambda>w c bs. w),
      ConnRead = (\<lambda>w c n. ((example_reply, None), w)),
      ConnClose = (\<lambda>w c. w),
      ListenTCP = (\<lambda>w a. (if bindable then None else Some (Err ''address already in use''), w)),
      AcceptTCP = (\<lambda>w. (Inr \<lparr>fd = 9, RemoteAddr = ''192.0.2.7:50000''\<rparr>, w))\<rparr>"

definition example_config :: config where
  "example_config = \<lparr>localAddrAsStr = '':9999'', sentinelAddrAsStr = ''sentinel:26379'',
                      masterNameAsStr = ''mymaster'', logLevelAsStr = []\<rparr>"

definition example_master :: TCPAddr where
  "example_master = \<lparr>IP = ''10.0.0.1'', Port = 6380, Zone = []\<rparr>"

definition example_client :: Conn where
  "example_client = \<lparr>fd = 9, RemoteAddr = ''192.0.2.7:50000''\<rparr>"

text \<open>
  \<open>start_state\<close>: \<^verbatim>\<open>main\<close> has made channel 0 and the tracker starts. \<open>known_state\<close>: the
  tracker has found the example primary since, channel 0 is closed and channel 1 is the
  current one.
\<close>

definition start_state :: "nat state" where
  "start_state = \<lparr>world = 0, now = 0, trace = [], masterAddr = None, masterStopChan = 0,
                    closed = {}, next_chan = 1\<rparr>"

definition known_state :: "nat state" where
  "known_state = \<lparr>world = 1, now = 252, trace = [], masterAddr = Some example_master,
                    masterStopChan = 1, closed = {0}, next_chan = 2\<rparr>"

section \<open>Basic facts\<close>

lemma JoinHostPort_colon: "CHR '':'' \<in> set (JoinHostPort host port)"
  by (simp add: JoinHostPort_def)

lemma TCPAddr_String_colon: "CHR '':'' \<in> set (TCPAddr_String (Some a))"
  by (simp add: JoinHostPort_colon)

lemma TCPAddr_String_not_nil: "TCPAddr_String (Some a) \<noteq> ''<nil>''"
proof
  assume "TCPAddr_String (Some a) = ''<nil>''"
  then have "CHR '':'' \<in> set ''<nil>''"
    using TCPAddr_String_colon [of a] by simp
  then show False by simp
qed

lemma io_run_refl: "io_run st [] st"
  by (simp add: io_run_def)

lemma io_run_trans: "io_run st evs st1 \<Longrightarrow> io_run st1 evs' st2 \<Longrightarrow> io_run st (evs @ evs') st2"
  by (simp add: io_run_def)

lemma io_run_since: "io_run st evs st' \<Longrightarrow> since st st' = evs"
  by (simp add: io_run_def since_def)

lemma io_run_emit: "io_run st [e] (emit e st)"
  by (simp add: io_run_def emit_def)

lemma io_run_logf: "io_run st [Log l f args] (logf l f args st)"
  by (simp add: logf_def io_run_emit)

lemma io_run_Close: "io_run st [Close c] (conn_Close net c st)"
  by (simp add: io_run_def conn_Close_def emit_def)

lemma io_run_Write: "io_run st [Write c bs] (conn_Write net c bs st)"
  by (simp add: io_run_def conn_Write_def emit_def)

lemma io_run_Read: "conn_Read net c n st = (r, st') \<Longrightarrow> io_run st [Read c n] st'"
  by (clarsimp simp: io_run_def conn_Read_def emit_def case_prod_beta)

lemma net_DialTimeout_run:
  assumes "net_DialTimeout net site network address timeout st = (r, st')"
  shows "io_run st [Dial site network address timeout (case r of Inl e \<Rightarrow> None | Inr c \<Rightarrow> Some c)] st'"
    and "now st' \<le> now st + timeout"
    and "CHR '':'' \<notin> set address \<Longrightarrow> \<exists>e. r = Inl e"
  using assms
  by (cases "Connect net (world st) network address";
      clarsimp simp: io_run_def net_DialTimeout_def emit_def split: if_splits sum.splits)+

lemma net_ResolveTCPAddr_run:
  assumes "net_ResolveTCPAddr net address st = ((a, err), st')"
  shows "io_run st [Resolve address a] st'"
    and "a = None \<longleftrightarrow> err \<noteq> None"
  using assms
  by (cases "ResolveTCPAddr net (world st) address";
      clarsimp simp: io_run_def net_ResolveTCPAddr_def emit_def split: sum.splits)+

lemma net_LookupIP_run:
  assumes "net_LookupIP net host st = (r, st')"
  shows "io_run st [Lookup host (case r of Inl e \<Rightarrow> None | Inr ips \<Rightarrow> Some ips)] st'"
  using assms
  by (cases "LookupIP net (world st) host";
      clarsimp simp: io_run_def net_LookupIP_def emit_def split: sum.splits)

lemma runs_refl: "runs P st st"
  unfolding runs_def using io_run_refl [of st] by (intro exI [of _ "[]"]) simp

lemma runs_trans: "runs P st st1 \<Longrightarrow> runs P st1 st2 \<Longrightarrow> runs P st st2"
  unfolding runs_def by (metis io_run_trans list_all_append)

lemma runs_one: "io_run st [e] st' \<Longrightarrow> P e \<Longrightarrow> runs P st st'"
  unfolding runs_def by (intro exI [of _ "[e]"]) simp


lemma runs_io: "runs P st st' \<Longrightarrow> \<exists>evs. io_run st evs st'"
  unfolding runs_def by blast

lemma quiet_simps [simp]:
  "quiet (Log l f args) \<longleftrightarrow> f \<noteq> ''[MASTER] Master Address changed from %s to %s.''"
  "quiet (Dial site nw a t r) \<longleftrightarrow> site \<noteq> MasterProbe \<or> r = None"
  "quiet (Resolve a x)" "quiet (Lookup h y)" "quiet (Write c bs)" "quiet (Read c n)" "quiet (Close c)"
  "quiet (Sleep d)"
  by (cases site; cases r; simp add: quiet_def)+

text \<open>The equations that evaluate the model on the example network.\<close>

lemmas eval_defs = getMasterAddr_def getSentinels_def
  getMasterAddrFromSentinel_def getMasterAddrFromSentinelResponse_def
  net_DialTimeout_def net_ResolveTCPAddr_def net_LookupIP_def conn_Write_def conn_Read_def conn_Close_def
  emit_def logf_def time_Sleep_def make_chan_def close_chan_def
  example_net_def example_config_def example_hosts_def example_reply_def example_master_def
  example_client_def stale_reply_def start_state_def known_state_def init_state_def
  JoinHostPort_def Itoa_def uitoa.simps Split_def CRLF_def DialTimeout_def ProxyDialTimeout_def Let_def

section \<open>What discovery does\<close>

lemma getMasterAddrFromSentinelResponse_runs:
  assumes "getMasterAddrFromSentinelResponse net response st = (r, st')"
  shows "runs quiet st st'"
proof (cases "length (Split response CRLF) < 5")
  case True
  with assms have "st' = logf ErrorLevel (''Wrong sentinel response: '%s'' @ [CHR 0x27]) [response] st"
    by (simp add: getMasterAddrFromSentinelResponse_def Let_def)
  then show ?thesis
    by (simp add: runs_one [OF io_run_logf])
next
  case False
  obtain a err where r: "r = (a, err)" by (cases r)
  from False assms have
    "net_ResolveTCPAddr net (Split response CRLF ! 2 @ '':'' @ Split response CRLF ! 4) st = ((a, err), st')"
    unfolding r by (simp add: getMasterAddrFromSentinelResponse_def Let_def)
  then show ?thesis
    by (rule runs_one [OF net_ResolveTCPAddr_run(1)]) simp
qed

lemma getMasterAddrFromSentinel_runs:
  assumes "getMasterAddrFromSentinel net cfg sentinelAddress st = (r, st')"
  shows "runs quiet st st'"
proof (cases "net_DialTimeout net SentinelDial ''tcp'' (TCPAddr_String sentinelAddress) DialTimeout st")
  case (Pair d st1)
  have dial: "runs quiet st st1"
    by (rule runs_one [OF net_DialTimeout_run(1) [OF Pair]]) simp
  show ?thesis
  proof (cases d)
    case (Inl err)
    with Pair assms have "st' = st1"
      by (simp add: getMasterAddrFromSentinel_def)
    with dial show ?thesis by simp
  next
    case (Inr conn)
    define st2 where "st2 = conn_Write net conn
        (''sentinel get-master-addr-by-name '' @ masterNameAsStr cfg @ ''\<newline>'') st1"
    obtain p st3 where rd: "conn_Read net conn 256 st2 = (p, st3)"
      by (cases "conn_Read net conn 256 st2")
    obtain b err where p: "p = (b, err)" by (cases p)
    have w: "runs quiet st1 st2"
      unfolding st2_def by (rule runs_one [OF io_run_Write]) simp
    have r3: "runs quiet st2 st3"
      by (rule runs_one [OF io_run_Read [OF rd]]) simp
    have step: "runs quiet st st3"
      using dial w r3 runs_trans by blast
    note rd' = rd [unfolded st2_def p]
    note unfold = getMasterAddrFromSentinel_def Pair Inr Let_def
    show ?thesis
    proof (cases err)
      case (Some e)
      define st4 where "st4 = logf ErrorLevel ''Cannot read from sentinel: %s'' [sentinelAddrAsStr cfg] st3"
      from assms Some rd' have "st' = conn_Close net conn st4"
        unfolding st4_def by (simp add: unfold)
      moreover have "runs quiet st3 st4"
        unfolding st4_def by (rule runs_one [OF io_run_logf]) simp
      moreover have "runs quiet st4 (conn_Close net conn st4)"
        by (rule runs_one [OF io_run_Close]) simp
      ultimately show ?thesis
        using step runs_trans by blast
    next
      case None
      obtain r4 st4 where resp: "getMasterAddrFromSentinelResponse net b st3 = (r4, st4)"
        by (cases "getMasterAddrFromSentinelResponse net b st3")
      with assms None rd' have "st' = conn_Close net conn st4"
        by (simp add: unfold)
      moreover have "runs quiet st4 (conn_Close net conn st4)"
        by (rule runs_one [OF io_run_Close]) simp
      ultimately show ?thesis
        using step getMasterAddrFromSentinelResponse_runs [OF resp] runs_trans by blast
    qed
  qed
qed

lemma resolved_append: "resolved (xs @ ys) = resolved xs @ resolved ys"
  by (induction xs rule: resolved.induct) simp_all

lemma closes_append: "closes (xs @ ys) = closes xs @ closes ys"
  by (induction xs rule: closes.induct) simp_all

lemma getSentinels_loop_run:
  assumes "getSentinels_loop net port ips acc st = (l, st')"
  shows "\<exists>evs l'. io_run st evs st' \<and> l = acc @ l' \<and> length l' = length ips \<and> list_all quiet evs \<and>
           resolved evs = zip (map (\<lambda>ip. JoinHostPort ip port) ips) l' \<and>
           filter resolve_error_log evs =
             map (\<lambda>(a, r). Log ErrorLevel ''Can not resolve sentinel address: %s'' [a])
               (filter (\<lambda>(a, r). r = None) (resolved evs))"
  using assms
proof (induction ips arbitrary: acc st)
  case Nil
  then have "l = acc" "st' = st" by simp_all
  then show ?case
    using io_run_refl [of st] by (intro exI [of _ "[]"]) simp
next
  case (Cons ip ips)
  define addr where "addr = JoinHostPort ip port"
  define st1 where "st1 = logf TraceLevel ''Sentinel address: %s'' [addr] st"
  obtain p st2 where res0: "net_ResolveTCPAddr net addr st1 = (p, st2)"
    by (cases "net_ResolveTCPAddr net addr st1")
  obtain a err where p: "p = (a, err)" by (cases p)
  note res = res0 [unfolded p]
  define st3 where "st3 = (if err \<noteq> None
      then logf ErrorLevel ''Can not resolve sentinel address: %s'' [addr] st2 else st2)"
  define evs0 where "evs0 = [Log TraceLevel ''Sentinel address: %s'' [addr], Resolve addr a] @
      (if err \<noteq> None then [Log ErrorLevel ''Can not resolve sentinel address: %s'' [addr]] else [])"
  have rec: "getSentinels_loop net port ips (acc @ [a]) st3 = (l, st')"
    using Cons.prems res [unfolded st1_def addr_def]
    by (cases err) (simp_all add: Let_def st3_def st1_def addr_def)
  have "io_run st [Log TraceLevel ''Sentinel address: %s'' [addr]] st1"
    unfolding st1_def by (rule io_run_logf)
  from io_run_trans [OF this net_ResolveTCPAddr_run(1) [OF res]]
  have "io_run st [Log TraceLevel ''Sentinel address: %s'' [addr], Resolve addr a] st2"
    by simp
  then have run0: "io_run st evs0 st3"
    unfolding evs0_def st3_def using io_run_trans [OF _ io_run_logf] by fastforce
  have nil: "a = None \<longleftrightarrow> err \<noteq> None"
    by (rule net_ResolveTCPAddr_run(2) [OF res])
  from Cons.IH [OF rec] obtain evs l' where
    ih: "io_run st3 evs st'" "l = (acc @ [a]) @ l'" "length l' = length ips" "list_all quiet evs"
      "resolved evs = zip (map (\<lambda>ip. JoinHostPort ip port) ips) l'"
      "filter resolve_error_log evs =
         map (\<lambda>(a, r). Log ErrorLevel ''Can not resolve sentinel address: %s'' [a])
           (filter (\<lambda>(a, r). r = None) (resolved evs))"
    by blast
  have "io_run st (evs0 @ evs) st'"
    by (rule io_run_trans [OF run0 ih(1)])
  moreover have "l = acc @ (a # l')" using ih(2) by simp
  moreover have "length (a # l') = length (ip # ips)" using ih(3) by simp
  moreover have "list_all quiet (evs0 @ evs)" using ih(4) by (simp add: evs0_def)
  moreover have "resolved (evs0 @ evs) = zip (map (\<lambda>ip. JoinHostPort ip port) (ip # ips)) (a # l')"
    using ih(5) by (simp add: resolved_append evs0_def addr_def)
  moreover have "filter resolve_error_log (evs0 @ evs) =
      map (\<lambda>(a, r). Log ErrorLevel ''Can not resolve sentinel address: %s'' [a])
        (filter (\<lambda>(a, r). r = None) (resolved (evs0 @ evs)))"
    using ih(6) nil by (simp add: resolved_append evs0_def)
  ultimately show ?case by blast
qed

lemma getSentinels_ok:
  assumes "SplitHostPort net sentinelAddress = Inr (host, port)"
      and "fst (LookupIP net (world st) host) = Inr ips"
  shows "\<exists>l st' evs. getSentinels net sentinelAddress st = ((l, None), st') \<and>
           io_run st (Lookup host (Some ips) # evs) st' \<and> length l = length ips \<and>
           list_all quiet evs \<and>
           resolved evs = zip (map (\<lambda>ip. JoinHostPort ip port) ips) l \<and>
           filter resolve_error_log evs =
             map (\<lambda>(a, r). Log ErrorLevel ''Can not resolve sentinel address: %s'' [a])
               (filter (\<lambda>(a, r). r = None) (resolved evs))"
proof -
  obtain r st1 where lk: "net_LookupIP net host st = (r, st1)"
    by (cases "net_LookupIP net host st")
  have r: "r = Inr ips"
    using lk assms(2)
    by (cases "LookupIP net (world st) host") (auto simp: net_LookupIP_def split: sum.splits)
  have run1: "io_run st [Lookup host (Some ips)] st1"
    using net_LookupIP_run [OF lk] by (simp add: r)
  obtain l st' where lp: "getSentinels_loop net port ips [] st1 = (l, st')"
    by (cases "getSentinels_loop net port ips [] st1")
  from getSentinels_loop_run [OF lp] obtain evs where
    evs: "io_run st1 evs st'" "length l = length ips" "list_all quiet evs"
      "resolved evs = zip (map (\<lambda>ip. JoinHostPort ip port) ips) l"
      "filter resolve_error_log evs =
         map (\<lambda>(a, r). Log ErrorLevel ''Can not resolve sentinel address: %s'' [a])
           (filter (\<lambda>(a, r). r = None) (resolved evs))"
    by auto
  have "getSentinels net sentinelAddress st = ((l, None), st')"
    by (simp add: getSentinels_def assms(1) lk r lp)
  moreover have "io_run st (Lookup host (Some ips) # evs) st'"
    using io_run_trans [OF run1 evs(1)] by simp
  ultimately show ?thesis
    using evs by blast
qed

lemma getSentinels_runs:
  assumes "getSentinels net sentinelAddress st = (r, st')"
  shows "runs quiet st st'"
proof (cases "SplitHostPort net sentinelAddress")
  case (Inl e)
  with assms have "st' = st" by (simp add: getSentinels_def)
  then show ?thesis by (simp add: runs_refl)
next
  case (Inr hp)
  obtain host port where hp: "hp = (host, port)" by (cases hp)
  obtain d st1 where lk: "net_LookupIP net host st = (d, st1)"
    by (cases "net_LookupIP net host st")
  have run1: "runs quiet st st1"
    by (rule runs_one [OF net_LookupIP_run [OF lk]]) simp
  show ?thesis
  proof (cases d)
    case (Inl e)
    with assms Inr hp lk have "st' = st1" by (simp add: getSentinels_def)
    with run1 show ?thesis by simp
  next
    case (Inr ips)
    obtain l st2 where lp: "getSentinels_loop net port ips [] st1 = (l, st2)"
      by (cases "getSentinels_loop net port ips [] st1")
    with assms \<open>SplitHostPort net sentinelAddress = Inr hp\<close> hp lk Inr have "st' = st2"
      by (simp add: getSentinels_def)
    moreover have "runs quiet st1 st2"
      using getSentinels_loop_run [OF lp] unfolding runs_def by blast
    ultimately show ?thesis
      using run1 runs_trans by blast
  qed
qed

lemma getMasterAddr_loop_run:
  assumes "getMasterAddr_loop net cfg sentinels st = ((r, err), st')"
  shows "err = None \<and> (r = None \<longrightarrow> runs quiet st st') \<and>
         (\<forall>a. r = Some a \<longrightarrow>
            (\<exists>evs c. io_run st (evs @ [Dial MasterProbe ''tcp'' (TCPAddr_String (Some a)) DialTimeout (Some c),
                                      Close c]) st' \<and> list_all quiet evs))"
  using assms
proof (induction sentinels arbitrary: st)
  case Nil
  then show ?case by (simp add: runs_refl)
next
  case (Cons s sentinels)
  obtain p st1 where q0: "getMasterAddrFromSentinel net cfg s st = (p, st1)"
    by (cases "getMasterAddrFromSentinel net cfg s st")
  obtain m e1 where p: "p = (m, e1)" by (cases p)
  note q = q0 [unfolded p]
  define st2 where "st2 = (case e1 of
      Some e \<Rightarrow> logf ErrorLevel ''Can not get master address from sentinel. %s'' [Error e] st1
    | None \<Rightarrow> st1)"
  obtain d st3 where dial: "net_DialTimeout net MasterProbe ''tcp'' (TCPAddr_String m) DialTimeout st2 = (d, st3)"
    by (cases "net_DialTimeout net MasterProbe ''tcp'' (TCPAddr_String m) DialTimeout st2")
  have run1: "runs quiet st st1"
    by (rule getMasterAddrFromSentinel_runs [OF q])
  have "runs quiet st1 st2"
    unfolding st2_def by (cases e1) (simp_all add: runs_refl runs_one [OF io_run_logf])
  with run1 have run2: "runs quiet st st2"
    using runs_trans by blast
  note body = Cons.prems [unfolded getMasterAddr_loop.simps q prod.case Let_def, folded st2_def,
      unfolded dial prod.case]
  show ?case
  proof (cases d)
    case (Inl e2)
    define st4 where "st4 = logf ErrorLevel ''Can not dial master: %s'' [TCPAddr_String m] st3"
    have rec: "getMasterAddr_loop net cfg sentinels st4 = ((r, err), st')"
      using body unfolding Inl st4_def by simp
    have "runs quiet st2 st3"
      by (rule runs_one [OF net_DialTimeout_run(1) [OF dial]]) (simp add: Inl)
    moreover have "runs quiet st3 st4"
      unfolding st4_def by (rule runs_one [OF io_run_logf]) simp
    ultimately have run4: "runs quiet st st4"
      using run2 runs_trans by blast
    then obtain evs4 where evs4: "io_run st evs4 st4" "list_all quiet evs4"
      unfolding runs_def by blast
    from Cons.IH [OF rec] have ih: "err = None" "r = None \<longrightarrow> runs quiet st4 st'"
      "\<forall>a. r = Some a \<longrightarrow>
         (\<exists>evs c. io_run st4 (evs @ [Dial MasterProbe ''tcp'' (TCPAddr_String (Some a)) DialTimeout (Some c),
                                    Close c]) st' \<and> list_all quiet evs)"
      by blast+
    have "r = None \<longrightarrow> runs quiet st st'"
      using ih(2) run4 runs_trans by blast
    moreover have "\<exists>evs c. io_run st (evs @ [Dial MasterProbe ''tcp'' (TCPAddr_String (Some a)) DialTimeout (Some c),
                                    Close c]) st' \<and> list_all quiet evs" if "r = Some a" for a
    proof -
      from ih(3) that obtain evs c where
        "io_run st4 (evs @ [Dial MasterProbe ''tcp'' (TCPAddr_String (Some a)) DialTimeout (Some c), Close c]) st'"
        "list_all quiet evs"
        by blast
      with evs4 have
        "io_run st ((evs4 @ evs) @ [Dial MasterProbe ''tcp'' (TCPAddr_String (Some a)) DialTimeout (Some c), Close c]) st'"
        "list_all quiet (evs4 @ evs)"
        using io_run_trans by fastforce+
      then show ?thesis by blast
    qed
    ultimately show ?thesis
      using ih(1) by blast
  next
    case (Inr conn2)
    have res: "r = m" "err = None" "st' = conn_Close net conn2 st3"
      using body unfolding Inr by simp_all
    have "CHR '':'' \<in> set (TCPAddr_String m)"
      using net_DialTimeout_run(3) [OF dial] Inr by auto
    then obtain a where m: "m = Some a"
      by (cases m) auto
    obtain evs2 where evs2: "io_run st evs2 st2" "list_all quiet evs2"
      using run2 unfolding runs_def by blast
    have "io_run st2 [Dial MasterProbe ''tcp'' (TCPAddr_String (Some a)) DialTimeout (Some conn2)] st3"
      using net_DialTimeout_run(1) [OF dial] by (simp add: Inr m)
    from io_run_trans [OF io_run_trans [OF evs2(1) this] io_run_Close [of st3 conn2 net]]
    have "io_run st (evs2 @ [Dial MasterProbe ''tcp'' (TCPAddr_String (Some a)) DialTimeout (Some conn2),
                              Close conn2]) st'"
      by (simp add: res)
    with evs2(2) res m show ?thesis by blast
  qed
qed

lemma getMasterAddr_run:
  assumes "getMasterAddr net cfg sentinelAddress masterName st = ((r, err), st')"
  shows "r = None \<longrightarrow> runs quiet st st'"
    and "\<forall>a. r = Some a \<longrightarrow> err = None \<and>
            (\<exists>evs c. io_run st (evs @ [Dial MasterProbe ''tcp'' (TCPAddr_String (Some a)) DialTimeout (Some c),
                                      Close c]) st' \<and> list_all quiet evs)"
proof -
  obtain p st1 where gs0: "getSentinels net sentinelAddress st = (p, st1)"
    by (cases "getSentinels net sentinelAddress st")
  obtain l e where p: "p = (l, e)" by (cases p)
  note gs = gs0 [unfolded p]
  have run1: "runs quiet st st1"
    by (rule getSentinels_runs [OF gs])
  then obtain evs1 where evs1: "io_run st evs1 st1" "list_all quiet evs1"
    unfolding runs_def by blast
  have "(r = None \<longrightarrow> runs quiet st st') \<and>
        (\<forall>a. r = Some a \<longrightarrow> err = None \<and>
            (\<exists>evs c. io_run st (evs @ [Dial MasterProbe ''tcp'' (TCPAddr_String (Some a)) DialTimeout (Some c),
                                      Close c]) st' \<and> list_all quiet evs))"
  proof (cases e)
    case (Some x)
    with assms gs have "r = None" "st' = st1"
      by (simp_all add: getMasterAddr_def)
    with run1 show ?thesis by simp
  next
    case None
    with assms gs have lp: "getMasterAddr_loop net cfg l st1 = ((r, err), st')"
      by (simp add: getMasterAddr_def)
    note ih = getMasterAddr_loop_run [OF lp]
    have "r = None \<longrightarrow> runs quiet st st'"
      using ih run1 runs_trans by blast
    moreover have "err = None \<and> (\<exists>evs c. io_run st (evs @ [Dial MasterProbe ''tcp'' (TCPAddr_String (Some a)) DialTimeout (Some c),
                                      Close c]) st' \<and> list_all quiet evs)" if "r = Some a" for a
    proof -
      from ih that obtain evs c where
        "io_run st1 (evs @ [Dial MasterProbe ''tcp'' (TCPAddr_String (Some a)) DialTimeout (Some c), Close c]) st'"
        "list_all quiet evs"
        by blast
      with evs1 have
        "io_run st ((evs1 @ evs) @ [Dial MasterProbe ''tcp'' (TCPAddr_String (Some a)) DialTimeout (Some c), Close c]) st'"
        "list_all quiet (evs1 @ evs)"
        using io_run_trans by fastforce+
      with ih show ?thesis by blast
    qed
    ultimately show ?thesis by blast
  qed
  then show "r = None \<longrightarrow> runs quiet st st'"
    and "\<forall>a. r = Some a \<longrightarrow> err = None \<and>
            (\<exists>evs c. io_run st (evs @ [Dial MasterProbe ''tcp'' (TCPAddr_String (Some a)) DialTimeout (Some c),
                                      Close c]) st' \<and> list_all quiet evs)"
    by blast+
qed


section \<open>What the tracker does\<close>

lemma quiet_not_changed: "list_all quiet evs \<Longrightarrow> list_all (\<lambda>e. \<not> changed_log e) evs"
  by (simp add: list_all_iff quiet_def)

lemma quiet_closes: "list_all quiet evs \<Longrightarrow> closes evs = []"
  by (induction evs rule: closes.induct) (simp_all add: quiet_def)

lemma update_master_compare_nil:
  assumes "masterAddr st = Some m" and "masterStopChan st \<notin> closed st"
  shows "update_master_compare None st =
           Inr (st\<lparr>trace := trace st @ [Log ErrorLevel ''[MASTER] Master Address changed from %s to %s.''
                                            [TCPAddr_String (Some m), ''<nil>''],
                                        CloseChan (masterStopChan st), MakeChan (next_chan st)],
                    masterAddr := None,
                    closed := insert (masterStopChan st) (closed st),
                    masterStopChan := next_chan st,
                    next_chan := Suc (next_chan st)\<rparr>)"
  using assms TCPAddr_String_not_nil [of m]
  by (simp add: update_master_compare_def Let_def logf_def emit_def close_chan_def make_chan_def)

text \<open>
  A pass that sees a different string closes the current channel once and installs a fresh
  one; the tracker keeps its channels in order, so \<^verbatim>\<open>close\<close> never meets a closed channel
  and no number of passes panics. A session that took the channel current before the
  change finds its \<^verbatim>\<open>select\<close> ready afterwards; the fresh channel is open.
\<close>

lemma update_master_compare_fires:
  assumes "TCPAddr_String possibleMaster \<noteq> TCPAddr_String (masterAddr st)"
      and "masterStopChan st \<notin> closed st"
  shows "\<exists>st'. update_master_compare possibleMaster st = Inr st' \<and>
           masterAddr st' = possibleMaster \<and>
           closed st' = insert (masterStopChan st) (closed st) \<and>
           masterStopChan st' = next_chan st \<and> next_chan st' = Suc (next_chan st) \<and>
           closes (since st st') = [masterStopChan st]"
  using assms
  by (simp add: update_master_compare_def Let_def logf_def emit_def close_chan_def make_chan_def
      since_def)

lemma update_master_compare_same:
  assumes "TCPAddr_String possibleMaster = TCPAddr_String (masterAddr st)"
  shows "update_master_compare possibleMaster st = Inr st"
  using assms by (simp add: update_master_compare_def)

lemma update_master_compare_inv:
  assumes "chan_inv st"
  shows "\<exists>st'. update_master_compare possibleMaster st = Inr st' \<and> chan_inv st'"
proof (cases "TCPAddr_String possibleMaster = TCPAddr_String (masterAddr st)")
  case True
  with assms show ?thesis by (simp add: update_master_compare_same)
next
  case False
  from assms have "masterStopChan st \<notin> closed st"
    by (simp add: chan_inv_def)
  from update_master_compare_fires [OF False this] obtain st' where
    st': "update_master_compare possibleMaster st = Inr st'"
      "closed st' = insert (masterStopChan st) (closed st)"
      "masterStopChan st' = next_chan st" "next_chan st' = Suc (next_chan st)"
    by blast
  have "chan_inv st'"
    using assms unfolding chan_inv_def st'(2,3,4) by fastforce
  with st'(1) show ?thesis by blast
qed

lemma io_run_chan_inv: "io_run st evs st' \<Longrightarrow> chan_inv st \<Longrightarrow> chan_inv st'"
  by (simp add: io_run_def chan_inv_def)

lemma time_Sleep_chan_inv: "chan_inv st \<Longrightarrow> chan_inv (time_Sleep d st)"
  by (simp add: time_Sleep_def emit_def chan_inv_def)

lemma update_master_iter_inv:
  assumes "chan_inv st"
  shows "\<exists>st'. update_master_iter net cfg st = Inr st' \<and> chan_inv st'"
proof -
  obtain r err st1 where
    g: "getMasterAddr net cfg (sentinelAddrAsStr cfg) (masterNameAsStr cfg) st = ((r, err), st1)"
    by (metis prod.collapse)
  have "\<exists>evs. io_run st evs st1"
    using getMasterAddr_run [OF g] runs_io by (cases r) blast+
  then have inv1: "chan_inv st1"
    using assms io_run_chan_inv by blast
  show ?thesis
  proof (cases err)
    case (Some e)
    have "chan_inv (time_Sleep 1000
        (logf ErrorLevel ''[MASTER] Error polling for new master: %s.'' [Error e] st1))"
      using inv1 io_run_chan_inv [OF io_run_logf] time_Sleep_chan_inv by blast
    with g Some show ?thesis
      by (simp add: update_master_iter_def)
  next
    case None
    from update_master_compare_inv [OF inv1] obtain st2 where
      c: "update_master_compare r st1 = Inr st2" "chan_inv st2"
      by blast
    then have "chan_inv (time_Sleep 1000 st2)" "chan_inv (time_Sleep 250 st2)"
      using time_Sleep_chan_inv by blast+
    with g None c(1) show ?thesis
      by (simp add: update_master_iter_def)
  qed
qed

lemma update_master_never_panics:
  assumes "chan_inv st"
  shows "\<exists>st'. update_master n net cfg st = Inr st' \<and> chan_inv st'"
  using assms
proof (induction n arbitrary: st)
  case 0
  then show ?case by simp
next
  case (Suc n)
  from update_master_iter_inv [OF Suc.prems] obtain st1 where
    "update_master_iter net cfg st = Inr st1" "chan_inv st1"
    by blast
  with Suc.IH [of st1] show ?case by simp
qed

lemma change_releases_sessions:
  assumes "TCPAddr_String possibleMaster \<noteq> TCPAddr_String (masterAddr st)"
      and "chan_inv st"
      and "update_master_compare possibleMaster st = Inr st'"
  shows "stop_chan s = masterStopChan st \<Longrightarrow> select_ready s st'"
    and "masterStopChan st' \<notin> closed st'"
proof -
  from assms(2) have open_now: "masterStopChan st \<notin> closed st"
    by (simp add: chan_inv_def)
  from update_master_compare_fires [OF assms(1) open_now] assms(3)
  have c: "closed st' = insert (masterStopChan st) (closed st)"
    by auto
  show "stop_chan s = masterStopChan st \<Longrightarrow> select_ready s st'"
    by (simp add: select_ready_def c)
  from update_master_compare_inv [OF assms(2), of possibleMaster] assms(3)
  show "masterStopChan st' \<notin> closed st'"
    by (auto simp: chan_inv_def)
qed

section \<open>The claims\<close>





text \<open>
  C10. When the sentinel address splits and the host resolves to \<open>ips\<close>,
  \<^verbatim>\<open>getSentinels\<close> returns a nil error and a list with one entry for each IP, in order:
  the entry is what resolving that IP's address gave, nil where it failed. A failure
  leaves one log line of line 208 and nothing else. A nil entry then counts as a sentinel
  that does not respond: \<^verbatim>\<open>getMasterAddrFromSentinel\<close> fails on it without a connection,
  and the loop of \<^verbatim>\<open>getMasterAddr\<close> goes on to the next sentinel.
\<close>

theorem getSentinels_keeps_nil_entries:
  assumes "SplitHostPort net sentinelAddress = Inr (host, port)"
      and "fst (LookupIP net (world st) host) = Inr ips"
  shows "\<exists>l st'. getSentinels net sentinelAddress st = ((l, None), st') \<and>
           length l = length ips \<and>
           resolved (since st st') = zip (map (\<lambda>ip. JoinHostPort ip port) ips) l \<and>
           filter resolve_error_log (since st st') =
             map (\<lambda>(a, r). Log ErrorLevel ''Can not resolve sentinel address: %s'' [a])
               (filter (\<lambda>(a, r). r = None) (resolved (since st st'))) \<and>
           (\<forall>s. getMasterAddrFromSentinel net cfg None s =
             ((None, Some (Err (''Sentinel no not respond: '' @ sentinelAddrAsStr cfg))),
              emit (Dial SentinelDial ''tcp'' ''<nil>'' DialTimeout None) s)) \<and>
           (\<forall>sentinels s. getMasterAddr_loop net cfg (None # sentinels) s =
             getMasterAddr_loop net cfg sentinels
               (logf ErrorLevel ''Can not dial master: %s'' [''<nil>'']
                  (emit (Dial MasterProbe ''tcp'' ''<nil>'' DialTimeout None)
                     (logf ErrorLevel ''Can not get master address from sentinel. %s''
                        [''Sentinel no not respond: '' @ sentinelAddrAsStr cfg]
                        (emit (Dial SentinelDial ''tcp'' ''<nil>'' DialTimeout None) s)))))"
proof -
  from getSentinels_ok [OF assms] obtain l st' evs where
    ok: "getSentinels net sentinelAddress st = ((l, None), st')"
      "io_run st (Lookup host (Some ips) # evs) st'"
      "length l = length ips"
      "resolved evs = zip (map (\<lambda>ip. JoinHostPort ip port) ips) l"
      "filter resolve_error_log evs =
         map (\<lambda>(a, r). Log ErrorLevel ''Can not resolve sentinel address: %s'' [a])
           (filter (\<lambda>(a, r). r = None) (resolved evs))"
    by blast
  have s: "since st st' = Lookup host (Some ips) # evs"
    by (rule io_run_since [OF ok(2)])
  have q: "getMasterAddrFromSentinel net cfg None s =
             ((None, Some (Err (''Sentinel no not respond: '' @ sentinelAddrAsStr cfg))),
              emit (Dial SentinelDial ''tcp'' ''<nil>'' DialTimeout None) s)" for s :: "'a state"
    by (simp add: getMasterAddrFromSentinel_def net_DialTimeout_def)
  have lp: "getMasterAddr_loop net cfg (None # sentinels) s =
             getMasterAddr_loop net cfg sentinels
               (logf ErrorLevel ''Can not dial master: %s'' [''<nil>'']
                  (emit (Dial MasterProbe ''tcp'' ''<nil>'' DialTimeout None)
                     (logf ErrorLevel ''Can not get master address from sentinel. %s''
                        [''Sentinel no not respond: '' @ sentinelAddrAsStr cfg]
                        (emit (Dial SentinelDial ''tcp'' ''<nil>'' DialTimeout None) s))))"
    for sentinels and s :: "'a state"
    by (simp add: q net_DialTimeout_def)
  show ?thesis
    using ok(1,3,4,5) q lp by (simp add: s)
qed

theorem getSentinels_keeps_nil_entries_witness:
  "SplitHostPort (example_net (\<lambda>w. True) True) ''sentinel:26379'' = Inr (''sentinel'', ''26379'') \<and>
   fst (LookupIP (example_net (\<lambda>w. True) True) (world (init_state 0)) ''sentinel'') =
     Inr [''10.0.0.5'', ''10.0.0.6''] \<and>
   fst (getSentinels (example_net (\<lambda>w. True) True) ''sentinel:26379'' (init_state 0)) =
     ([Some \<lparr>IP = ''10.0.0.5'', Port = 26379, Zone = []\<rparr>, None], None) \<and>
   filter resolve_error_log
     (since (init_state 0) (snd (getSentinels (example_net (\<lambda>w. True) True) ''sentinel:26379'' (init_state 0)))) =
     [Log ErrorLevel ''Can not resolve sentinel address: %s'' [''10.0.0.6:26379'']] \<and>
   (\<exists>l st'. getSentinels (example_net (\<lambda>w. True) True) ''sentinel:26379'' (init_state 0) = ((l, None), st') \<and>
      length l = length [''10.0.0.5'', ''10.0.0.6''])"
proof -
  have a: "SplitHostPort (example_net (\<lambda>w. True) True) ''sentinel:26379'' = Inr (''sentinel'', ''26379'')"
    by (simp add: example_net_def)
  have b: "fst (LookupIP (example_net (\<lambda>w. True) True) (world (init_state 0)) ''sentinel'') =
     Inr [''10.0.0.5'', ''10.0.0.6'']"
    by (simp add: example_net_def)
  have c: "fst (getSentinels (example_net (\<lambda>w. True) True) ''sentinel:26379'' (init_state 0)) =
     ([Some \<lparr>IP = ''10.0.0.5'', Port = 26379, Zone = []\<rparr>, None], None)"
    by (simp add: eval_defs)
  have d: "filter resolve_error_log
     (since (init_state 0) (snd (getSentinels (example_net (\<lambda>w. True) True) ''sentinel:26379'' (init_state 0)))) =
     [Log ErrorLevel ''Can not resolve sentinel address: %s'' [''10.0.0.6:26379'']]"
    by (simp add: eval_defs since_def)
  from getSentinels_keeps_nil_entries [OF a b, of example_config] a b c d show ?thesis
    by blast
qed

text \<open>
  C4. When a pass of the tracker's loop discovers a non-nil address whose string equals
  that of the current \<^verbatim>\<open>masterAddr\<close>, the pass leaves the shared state alone:
  \<^verbatim>\<open>masterAddr\<close>, \<^verbatim>\<open>masterStopChan\<close>, the closed channels and the channel counter are as
  before, and the events of the pass hold no close of a channel and no log line of a
  change.
\<close>

theorem update_master_same_address_is_noop:
  assumes "fst (fst (getMasterAddr net cfg (sentinelAddrAsStr cfg) (masterNameAsStr cfg) st)) = Some a"
      and "TCPAddr_String (Some a) = TCPAddr_String (masterAddr st)"
  shows "\<exists>st'. update_master_iter net cfg st = Inr st' \<and>
           masterAddr st' = masterAddr st \<and> masterStopChan st' = masterStopChan st \<and>
           closed st' = closed st \<and> next_chan st' = next_chan st \<and>
           closes (since st st') = [] \<and>
           list_all (\<lambda>e. \<not> changed_log e) (since st st')"
proof -
  obtain err st1 where g: "getMasterAddr net cfg (sentinelAddrAsStr cfg) (masterNameAsStr cfg) st =
      ((Some a, err), st1)"
    using assms(1) by (metis prod.collapse)
  from getMasterAddr_run(2) [OF g] obtain evs c where
    err: "err = None" and
    run: "io_run st (evs @ [Dial MasterProbe ''tcp'' (TCPAddr_String (Some a)) DialTimeout (Some c), Close c]) st1" and
    q: "list_all quiet evs"
    by blast
  have same: "masterAddr st1 = masterAddr st"
    using run by (simp add: io_run_def)
  obtain m where known: "masterAddr st1 = Some m"
    using assms(2) TCPAddr_String_not_nil [of a] same by (cases "masterAddr st") auto
  have cmp: "update_master_compare (Some a) st1 = Inr st1"
    using assms(2) same by (simp add: update_master_compare_def)
  have it: "update_master_iter net cfg st = Inr (time_Sleep 250 st1)"
    by (simp add: update_master_iter_def g err cmp known)
  have "io_run st1 [Sleep 250] (time_Sleep 250 st1)"
    by (simp add: io_run_def time_Sleep_def emit_def)
  from io_run_trans [OF run this]
  have run': "io_run st (evs @ [Dial MasterProbe ''tcp'' (TCPAddr_String (Some a)) DialTimeout (Some c),
                                Close c, Sleep 250]) (time_Sleep 250 st1)"
    by simp
  then have s: "since st (time_Sleep 250 st1) =
      evs @ [Dial MasterProbe ''tcp'' (TCPAddr_String (Some a)) DialTimeout (Some c), Close c, Sleep 250]"
    by (rule io_run_since)
  have "closes (since st (time_Sleep 250 st1)) = []"
    using quiet_closes [OF q] by (simp add: s closes_append)
  moreover have "list_all (\<lambda>e. \<not> changed_log e) (since st (time_Sleep 250 st1))"
    using quiet_not_changed [OF q] by (simp add: s)
  ultimately show ?thesis
    using it run' by (simp add: io_run_def)
qed

theorem update_master_same_address_is_noop_witness:
  "fst (fst (getMasterAddr (example_net (\<lambda>w. True) True) example_config
               (sentinelAddrAsStr example_config) (masterNameAsStr example_config) known_state)) =
     Some example_master \<and>
   TCPAddr_String (Some example_master) = TCPAddr_String (masterAddr known_state) \<and>
   (\<exists>st'. update_master_iter (example_net (\<lambda>w. True) True) example_config known_state = Inr st' \<and>
      masterAddr st' = Some example_master \<and> masterStopChan st' = 1 \<and> closed st' = {0} \<and>
      next_chan st' = 2 \<and> closes (since known_state st') = [] \<and>
      list_all (\<lambda>e. \<not> changed_log e) (since known_state st'))"
proof -
  have a: "fst (fst (getMasterAddr (example_net (\<lambda>w. True) True) example_config
               (sentinelAddrAsStr example_config) (masterNameAsStr example_config) known_state)) =
     Some example_master"
    by (simp add: eval_defs)
  have b: "TCPAddr_String (Some example_master) = TCPAddr_String (masterAddr known_state)"
    by (simp add: known_state_def)
  have c: "masterAddr known_state = Some example_master" "masterStopChan known_state = 1"
    "closed known_state = {0}" "next_chan known_state = 2"
    by (simp_all add: known_state_def)
  from update_master_same_address_is_noop [OF a b] a b show ?thesis
    by (simp add: c)
qed

text \<open>
  C1 says that a poll with no usable candidate (nil address, nil error) leaves
  \<^verbatim>\<open>masterAddr\<close> and the signal channel alone. Line 131 compares strings and does not
  test \<^verbatim>\<open>possibleMaster\<close> for nil, and the string of a nil address is \<^verbatim>\<open><nil>\<close>: with a
  primary known and every sentinel down, the pass logs a change to \<^verbatim>\<open><nil>\<close>, sets
  \<^verbatim>\<open>masterAddr\<close> to nil, closes the current channel and replaces it. The comment of
  lines 139--140 takes a nil \<^verbatim>\<open>masterAddr\<close> to mean that no primary was ever found.
\<close>

theorem update_master_all_sentinels_down:
  "fst (getMasterAddr (example_net (\<lambda>w. False) True) example_config
          (sentinelAddrAsStr example_config) (masterNameAsStr example_config) known_state) = (None, None) \<and>
   masterAddr known_state = Some example_master \<and>
   masterStopChan known_state = 1 \<and> closed known_state = {0} \<and>
   (case update_master_iter (example_net (\<lambda>w. False) True) example_config known_state of
      Inl p \<Rightarrow> False
    | Inr st' \<Rightarrow>
        masterAddr st' = None \<and> masterStopChan st' = 2 \<and> closed st' = {0, 1} \<and>
        closes (since known_state st') = [1] \<and>
        filter changed_log (since known_state st') =
          [Log ErrorLevel ''[MASTER] Master Address changed from %s to %s.''
             [''10.0.0.1:6380'', ''<nil>'']])"
  by (simp add: eval_defs update_master_iter_def update_master_compare_def since_def insert_commute)

text \<open>
  C2 says that the channel is closed once for each change of the discovered address.
  Three passes of the loop: the sentinel names \<^verbatim>\<open>10.0.0.1:6380\<close>, then the sentinel is
  down, then it names \<^verbatim>\<open>10.0.0.1:6380\<close> again. The two successful probes reach the same
  address, yet three channels are closed: the nil candidate of the second pass counts as
  a change (as in C1), and so does the return of the same address in the third.
\<close>

theorem update_master_fires_on_lost_sentinel:
  "case update_master (Suc (Suc (Suc 0))) (example_net (\<lambda>w. w \<noteq> 2) True) example_config start_state of
     Inl p \<Rightarrow> False
   | Inr st' \<Rightarrow>
       filter probe_ok (trace st') =
         [Dial MasterProbe ''tcp'' ''10.0.0.1:6380'' 100 (Some \<lparr>fd = 7, RemoteAddr = ''10.0.0.1:6380''\<rparr>),
          Dial MasterProbe ''tcp'' ''10.0.0.1:6380'' 100 (Some \<lparr>fd = 7, RemoteAddr = ''10.0.0.1:6380''\<rparr>)] \<and>
       filter changed_log (trace st') =
         [Log ErrorLevel ''[MASTER] Master Address changed from %s to %s.'' [''<nil>'', ''10.0.0.1:6380''],
          Log ErrorLevel ''[MASTER] Master Address changed from %s to %s.'' [''10.0.0.1:6380'', ''<nil>''],
          Log ErrorLevel ''[MASTER] Master Address changed from %s to %s.'' [''<nil>'', ''10.0.0.1:6380'']] \<and>
       closes (trace st') = [0, 1, 2] \<and>
       masterAddr st' = Some example_master \<and> masterStopChan st' = 3"
  by (simp add: eval_defs update_master_iter_def update_master_compare_def)

text \<open>
  C5 says that \<^verbatim>\<open>getMasterAddrFromSentinelResponse\<close> returns an error exactly when the
  reply has fewer than five parts. A reply of five parts or more can fail too: line 225
  returns what \<^verbatim>\<open>net.ResolveTCPAddr\<close> returns, the error included. Here the reply names
  a host that does not resolve.
\<close>

theorem getMasterAddrFromSentinelResponse_error_iff_counterexample:
  "\<not> length (Split stale_reply CRLF) < 5 \<and>
   fst (getMasterAddrFromSentinelResponse (example_net (\<lambda>w. True) True) stale_reply (init_state 0)) =
     (None, Some (Err ''no such host''))"
  by (simp add: eval_defs)

text \<open>
  C5, amended. With fewer than five parts the function logs the reply and returns its own
  error; with five parts or more it returns what resolving \<open>part 2 : part 4\<close> returns,
  address or error. So it returns an error exactly when the reply has fewer than five
  parts or that resolution fails.
\<close>

theorem getMasterAddrFromSentinelResponse_parses:
  "(length (Split response CRLF) < 5 \<longrightarrow>
      getMasterAddrFromSentinelResponse net response st =
        ((None, Some (Err ''Couldn't get update_master address from sentinel.'')),
         logf ErrorLevel (''Wrong sentinel response: '%s'' @ [CHR 0x27]) [response] st)) \<and>
   (5 \<le> length (Split response CRLF) \<longrightarrow>
      getMasterAddrFromSentinelResponse net response st =
        net_ResolveTCPAddr net (Split response CRLF ! 2 @ '':'' @ Split response CRLF ! 4) st) \<and>
   (snd (fst (getMasterAddrFromSentinelResponse net response st)) \<noteq> None \<longleftrightarrow>
      length (Split response CRLF) < 5 \<or>
      (\<exists>e. fst (ResolveTCPAddr net (world st)
                  (Split response CRLF ! 2 @ '':'' @ Split response CRLF ! 4)) = Inl e))"
proof -
  have "snd (fst (net_ResolveTCPAddr net a st)) \<noteq> None \<longleftrightarrow>
        (\<exists>e. fst (ResolveTCPAddr net (world st) a) = Inl e)" for a
    by (cases "ResolveTCPAddr net (world st) a")
       (auto simp: net_ResolveTCPAddr_def split: sum.splits)
  then show ?thesis
    by (simp add: getMasterAddrFromSentinelResponse_def Let_def not_less)
qed

theorem getMasterAddrFromSentinelResponse_parses_witness:
  "5 \<le> length (Split example_reply CRLF) \<and>
   Split example_reply CRLF ! 2 = ''10.0.0.1'' \<and> Split example_reply CRLF ! 4 = ''6380'' \<and>
   fst (getMasterAddrFromSentinelResponse (example_net (\<lambda>w. True) True) example_reply (init_state 0)) =
     (Some example_master, None)"
proof -
  have a: "5 \<le> length (Split example_reply CRLF)"
    by (simp add: eval_defs)
  have b: "Split example_reply CRLF ! 2 = ''10.0.0.1''" "Split example_reply CRLF ! 4 = ''6380''"
    by (simp_all add: eval_defs)
  have c: "fst (net_ResolveTCPAddr (example_net (\<lambda>w. True) True) (''10.0.0.1'' @ '':'' @ ''6380'')
                  (init_state 0)) = (Some example_master, None)"
    by (simp add: eval_defs)
  from getMasterAddrFromSentinelResponse_parses
         [of example_reply "example_net (\<lambda>w. True) True" "init_state 0"] a b c
  show ?thesis by simp
qed



text \<open>
  C8. While \<^verbatim>\<open>masterAddr\<close> is nil, the accept loop starts \<^verbatim>\<open>proxy\<close> with a nil address.
  In whatever state that session runs, the dial of \<^verbatim>\<open><nil>\<close> fails at once (the address
  has no port), without a connection attempt and without time passing; the session logs
  the failure, closes the client connection and returns.
\<close>

theorem proxy_before_first_discovery:
  assumes "masterAddr st = None"
      and "fst (AcceptTCP net (world st)) = Inr local"
  shows "\<exists>st1. main_accept net st = (Some (Go_proxy local None (masterStopChan st)), st1) \<and>
           (\<forall>s. \<exists>s'. proxy net local None (masterStopChan st) s = (None, s') \<and>
                  since s s' =
                    [Dial ProxyDial ''tcp4'' ''<nil>'' ProxyDialTimeout None,
                     Log InfoLevel ''[PROXY %s => %s] Can't establish connection: %s\<newline>''
                       [RemoteAddr local, ''<nil>'',
                        ''dial tcp4: address <nil>: missing port in address''],
                     Close local] \<and>
                  now s' = now s \<and> world s' = ConnClose net (world s) local)"
proof -
  obtain w where acc: "AcceptTCP net (world st) = (Inr local, w)"
    using assms(2) by (metis prod.collapse)
  have m: "\<exists>st1. main_accept net st = (Some (Go_proxy local None (masterStopChan st)), st1)"
    by (simp add: main_accept_def acc assms(1))
  have "\<exists>s'. proxy net local None (masterStopChan st) s = (None, s') \<and>
                  since s s' =
                    [Dial ProxyDial ''tcp4'' ''<nil>'' ProxyDialTimeout None,
                     Log InfoLevel ''[PROXY %s => %s] Can't establish connection: %s\<newline>''
                       [RemoteAddr local, ''<nil>'',
                        ''dial tcp4: address <nil>: missing port in address''],
                     Close local] \<and>
                  now s' = now s \<and> world s' = ConnClose net (world s) local" for s :: "'a state"
    by (simp add: proxy_def net_DialTimeout_def since_def conn_Close_def logf_def emit_def)
  with m show ?thesis by blast
qed

theorem proxy_before_first_discovery_witness:
  "masterAddr start_state = None \<and>
   fst (AcceptTCP (example_net (\<lambda>w. True) True) (world start_state)) = Inr example_client \<and>
   fst (main_accept (example_net (\<lambda>w. True) True) start_state) = Some (Go_proxy example_client None 0) \<and>
   fst (proxy (example_net (\<lambda>w. True) True) example_client None 0 start_state) = None \<and>
   since start_state (snd (proxy (example_net (\<lambda>w. True) True) example_client None 0 start_state)) =
     [Dial ProxyDial ''tcp4'' ''<nil>'' 50 None,
      Log InfoLevel ''[PROXY %s => %s] Can't establish connection: %s\<newline>''
        [''192.0.2.7:50000'', ''<nil>'', ''dial tcp4: address <nil>: missing port in address''],
      Close example_client]"
proof -
  have a: "masterAddr start_state = None"
    by (simp add: start_state_def)
  have b: "fst (AcceptTCP (example_net (\<lambda>w. True) True) (world start_state)) = Inr example_client"
    by (simp add: eval_defs)
  have c: "masterStopChan start_state = 0" "RemoteAddr example_client = ''192.0.2.7:50000''"
    by (simp_all add: eval_defs)
  from proxy_before_first_discovery [OF a b] obtain st1 where
    m: "main_accept (example_net (\<lambda>w. True) True) start_state =
          (Some (Go_proxy example_client None (masterStopChan start_state)), st1)" and
    p: "\<forall>s. \<exists>s'. proxy (example_net (\<lambda>w. True) True) example_client None (masterStopChan start_state) s = (None, s') \<and>
                  since s s' =
                    [Dial ProxyDial ''tcp4'' ''<nil>'' ProxyDialTimeout None,
                     Log InfoLevel ''[PROXY %s => %s] Can't establish connection: %s\<newline>''
                       [RemoteAddr example_client, ''<nil>'',
                        ''dial tcp4: address <nil>: missing port in address''],
                     Close example_client] \<and>
                  now s' = now s \<and> world s' = ConnClose (example_net (\<lambda>w. True) True) (world s) example_client"
    by blast
  from p obtain s' where
    "proxy (example_net (\<lambda>w. True) True) example_client None (masterStopChan start_state) start_state = (None, s')"
    "since start_state s' =
                    [Dial ProxyDial ''tcp4'' ''<nil>'' ProxyDialTimeout None,
                     Log InfoLevel ''[PROXY %s => %s] Can't establish connection: %s\<newline>''
                       [RemoteAddr example_client, ''<nil>'',
                        ''dial tcp4: address <nil>: missing port in address''],
                     Close example_client]"
    by blast
  with a b m show ?thesis
    by (simp add: c ProxyDialTimeout_def)
qed

text \<open>
  C9 says that startup goes on to start the loops once both checks of \<^verbatim>\<open>checkArgs\<close> pass.
  Between the start of the tracker (line 106) and the accept loop (line 111) stands
  \<^verbatim>\<open>getLocalListener\<close>, which ends the process when the listen address cannot be bound.
  Here both checks pass, the tracker is started, the bind fails and the process exits: the
  accept loop is never reached.
\<close>

theorem main_startup_bind_failure_counterexample:
  "masterNameAsStr example_config \<noteq> [] \<and>
   fst (ResolveTCPAddr (example_net (\<lambda>w. True) False) (world (init_state 0)) (localAddrAsStr example_config)) =
     Inr \<lparr>IP = [], Port = 9999, Zone = []\<rparr> \<and>
   fst (main_startup (example_net (\<lambda>w. True) False) example_config (init_state 0)) = True \<and>
   trace (snd (main_startup (example_net (\<lambda>w. True) False) example_config (init_state 0))) =
     [Resolve '':9999'' (Some \<lparr>IP = [], Port = 9999, Zone = []\<rparr>),
      MakeChan 0, Go Go_update_master,
      Resolve '':9999'' (Some \<lparr>IP = [], Port = 9999, Zone = []\<rparr>),
      Listen (Some \<lparr>IP = [], Port = 9999, Zone = []\<rparr>) False,
      Log FatalLevel ''address already in use'' [], Exit 1]"
  by (simp add: eval_defs main_startup_def checkArgs_def getLocalListener_def log_Fatal_def)

text \<open>
  C9, amended. With an empty primary name the process logs and exits, and nothing else
  happens. With a name and a listen address that does not resolve, it resolves, logs and
  exits: no loop is started. When both checks pass, the tracker is started and the listen
  address is resolved again and bound; startup reaches the accept loop when the bind
  succeeds and exits fatally, the tracker already started, when it fails.
\<close>

theorem main_startup_checks:
  "(masterNameAsStr cfg = [] \<longrightarrow>
      main_startup net cfg st =
        (True, log_Fatal ''Name of the master redis node is required argument.'' [] st)) \<and>
   (masterNameAsStr cfg \<noteq> [] \<and> fst (ResolveTCPAddr net (world st) (localAddrAsStr cfg)) = Inl e \<longrightarrow>
      fst (main_startup net cfg st) = True \<and>
      since st (snd (main_startup net cfg st)) =
        [Resolve (localAddrAsStr cfg) None,
         Log FatalLevel ''Failed to resolve local address '%s': %s'' [localAddrAsStr cfg, Error e],
         Exit 1]) \<and>
   (masterNameAsStr cfg \<noteq> [] \<and> fst (ResolveTCPAddr net (world st) (localAddrAsStr cfg)) = Inr a \<longrightarrow>
      (\<exists>laddr msg. since st (snd (main_startup net cfg st)) =
         [Resolve (localAddrAsStr cfg) (Some a), MakeChan (next_chan st), Go Go_update_master,
          Resolve (localAddrAsStr cfg) laddr] @
         (if fst (main_startup net cfg st)
          then [Listen laddr False, Log FatalLevel msg [], Exit 1]
          else [Listen laddr True])))"
proof -
  have A: "main_startup net cfg st =
        (True, log_Fatal ''Name of the master redis node is required argument.'' [] st)"
    if "masterNameAsStr cfg = []"
    using that by (simp add: main_startup_def checkArgs_def)
  have B: "fst (main_startup net cfg st) = True \<and>
      since st (snd (main_startup net cfg st)) =
        [Resolve (localAddrAsStr cfg) None,
         Log FatalLevel ''Failed to resolve local address '%s': %s'' [localAddrAsStr cfg, Error e],
         Exit 1]"
    if h: "masterNameAsStr cfg \<noteq> [] \<and> fst (ResolveTCPAddr net (world st) (localAddrAsStr cfg)) = Inl e"
  proof -
    from h obtain w where r: "ResolveTCPAddr net (world st) (localAddrAsStr cfg) = (Inl e, w)"
      by (metis prod.collapse)
    show ?thesis
      using h
      by (simp add: main_startup_def checkArgs_def net_ResolveTCPAddr_def r log_Fatal_def logf_def
          emit_def since_def)
  qed
  have C: "\<exists>laddr msg. since st (snd (main_startup net cfg st)) =
         [Resolve (localAddrAsStr cfg) (Some a), MakeChan (next_chan st), Go Go_update_master,
          Resolve (localAddrAsStr cfg) laddr] @
         (if fst (main_startup net cfg st)
          then [Listen laddr False, Log FatalLevel msg [], Exit 1]
          else [Listen laddr True])"
    if h: "masterNameAsStr cfg \<noteq> [] \<and> fst (ResolveTCPAddr net (world st) (localAddrAsStr cfg)) = Inr a"
  proof -
  from h obtain w where r: "ResolveTCPAddr net (world st) (localAddrAsStr cfg) = (Inr a, w)"
    by (metis prod.collapse)
  obtain x w2 where r2: "ResolveTCPAddr net w (localAddrAsStr cfg) = (x, w2)"
    by (cases "ResolveTCPAddr net w (localAddrAsStr cfg)")
  define laddr where "laddr = (case x of Inl e \<Rightarrow> None | Inr b \<Rightarrow> Some b)"
  obtain le w3 where l: "ListenTCP net w2 laddr = (le, w3)"
    by (cases "ListenTCP net w2 laddr")
  have "since st (snd (main_startup net cfg st)) =
         [Resolve (localAddrAsStr cfg) (Some a), MakeChan (next_chan st), Go Go_update_master,
          Resolve (localAddrAsStr cfg) laddr] @
         (if fst (main_startup net cfg st)
          then [Listen laddr False, Log FatalLevel (case le of None \<Rightarrow> [] | Some err \<Rightarrow> Error err) [], Exit 1]
          else [Listen laddr True])"
    using h l
    by (cases x; cases le)
       (simp_all add: main_startup_def checkArgs_def getLocalListener_def net_ResolveTCPAddr_def
          r r2 laddr_def make_chan_def log_Fatal_def logf_def emit_def since_def)
  then show ?thesis by blast
  qed
  from A B C show ?thesis by blast
qed

theorem main_startup_checks_witness:
  "masterNameAsStr example_config \<noteq> [] \<and>
   fst (ResolveTCPAddr (example_net (\<lambda>w. True) True) (world (init_state 0)) (localAddrAsStr example_config)) =
     Inr \<lparr>IP = [], Port = 9999, Zone = []\<rparr> \<and>
   fst (main_startup (example_net (\<lambda>w. True) True) example_config (init_state 0)) = False \<and>
   (\<exists>laddr. since (init_state 0) (snd (main_startup (example_net (\<lambda>w. True) True) example_config (init_state 0))) =
      [Resolve '':9999'' (Some \<lparr>IP = [], Port = 9999, Zone = []\<rparr>), MakeChan 0, Go Go_update_master,
       Resolve '':9999'' laddr, Listen laddr True])"
proof -
  have a: "masterNameAsStr example_config \<noteq> []"
    by (simp add: example_config_def)
  have b: "fst (ResolveTCPAddr (example_net (\<lambda>w. True) True) (world (init_state 0))
                  (localAddrAsStr example_config)) = Inr \<lparr>IP = [], Port = 9999, Zone = []\<rparr>"
    by (simp add: eval_defs)
  have c: "fst (main_startup (example_net (\<lambda>w. True) True) example_config (init_state 0)) = False"
    by (simp add: eval_defs main_startup_def checkArgs_def getLocalListener_def log_Fatal_def)
  have d: "localAddrAsStr example_config = '':9999''" "next_chan (init_state 0 :: nat state) = 0"
    by (simp_all add: example_config_def init_state_def)
  from main_startup_checks [of example_config "example_net (\<lambda>w. True) True" "init_state 0" _
      "\<lparr>IP = [], Port = 9999, Zone = []\<rparr>"] a b
  have "\<exists>laddr. since (init_state 0) (snd (main_startup (example_net (\<lambda>w. True) True) example_config (init_state 0))) =
      [Resolve '':9999'' (Some \<lparr>IP = [], Port = 9999, Zone = []\<rparr>), MakeChan 0, Go Go_update_master,
       Resolve '':9999'' laddr] @ [Listen laddr True]"
    by (simp add: c d)
  with a b c show ?thesis by simp
qed

end
